theory Spec2Isabelle
  imports Main "HOL-Library.Sublist" "HOL-Library.AList" "HOL-Library.Char_ord"
    "HOL-Library.List_Lexorder"
begin

section \<open>Go values used by the agent\<close>

subsection \<open>Errors\<close>

text \<open>
  The error numbers the file operations of the model can report, and the text Go prints for
  each of them.
\<close>

datatype errno = ENOENT | ENOTDIR | EISDIR | EEXIST | EINVAL | ENAMETOOLONG

fun errno_text :: "errno \<Rightarrow> string" where
  "errno_text ENOENT = ''no such file or directory''"
| "errno_text ENOTDIR = ''not a directory''"
| "errno_text EISDIR = ''is a directory''"
| "errno_text EEXIST = ''file exists''"
| "errno_text EINVAL = ''invalid argument''"
| "errno_text ENAMETOOLONG = ''file name too long''"

text \<open>
  A Go \<open>error\<close> value. \<open>Errorf s\<close> is \<open>fmt.Errorf(s)\<close> with a constant text,
  \<open>Wrapf p e\<close> is \<open>fmt.Errorf(p + "%w", e)\<close>, \<open>PathError op path e\<close> is the
  \<open>*fs.PathError\<close> of package os, \<open>SyntaxError\<close> and \<open>UnmarshalTypeError\<close> are the two
  errors of \<open>json.Unmarshal\<close>, and \<open>APIError\<close> is a failure of the remote inference call,
  with its text.
\<close>

datatype go_error =
    Errorf string
  | Wrapf string go_error
  | PathError string string errno
  | SyntaxError string
  | UnmarshalTypeError string string string
  | APIError string

text \<open>\<open>err.Error()\<close>.\<close>

fun error_text :: "go_error \<Rightarrow> string" where
  "error_text (Errorf s) = s"
| "error_text (Wrapf p e) = p @ error_text e"
| "error_text (PathError op path e) = op @ '' '' @ path @ '': '' @ errno_text e"
| "error_text (SyntaxError m) = m"
| "error_text (UnmarshalTypeError v s f) =
     (if f = [] then ''json: cannot unmarshal '' @ v @ '' into Go value of type main.'' @ s
      else ''json: cannot unmarshal '' @ v @ '' into Go struct field '' @ s @ ''.'' @ f
             @ '' of type string'')"
| "error_text (APIError t) = t"

text \<open>\<open>os.IsNotExist\<close>: it looks through a \<open>*PathError\<close>, not through \<open>%w\<close>.\<close>

fun IsNotExist :: "go_error \<Rightarrow> bool" where
  "IsNotExist (PathError op path e) = (e = ENOENT)"
| "IsNotExist _ = False"

text \<open>
  A call either returns or panics; a panic carries the value it was raised with. Nothing in
  the program recovers from a panic, so a panic ends the process.
\<close>

datatype 'a outcome = Panic go_error | Returns 'a

subsection \<open>UTF-8 sequences\<close>

text \<open>
  \<open>utf8.DecodeRuneInString(s)\<close>, its width: the number of bytes of the UTF-8 sequence at
  the start of \<open>s\<close>, and 1 for a byte that starts no valid sequence (0 for the empty string).
  The ranges are those of the Go decoder: no overlong form, no surrogate, nothing above
  U+10FFFF.
\<close>

definition cont :: "nat \<Rightarrow> nat \<Rightarrow> char \<Rightarrow> bool" where
  "cont lo hi c = (lo \<le> (of_char c :: nat) \<and> (of_char c :: nat) \<le> hi)"

fun rune_width :: "string \<Rightarrow> nat" where
  "rune_width [] = 0"
| "rune_width (c # cs) =
     (let b = (of_char c :: nat) in
      if b < 128 then 1
      else if 194 \<le> b \<and> b \<le> 223 then
        (case cs of c1 # _ \<Rightarrow> if cont 128 191 c1 then 2 else 1 | _ \<Rightarrow> 1)
      else if 224 \<le> b \<and> b \<le> 239 then
        (case cs of
           c1 # c2 # _ \<Rightarrow>
             if cont (if b = 224 then 160 else 128) (if b = 237 then 159 else 191) c1
                \<and> cont 128 191 c2
             then 3 else 1
         | _ \<Rightarrow> 1)
      else if 240 \<le> b \<and> b \<le> 244 then
        (case cs of
           c1 # c2 # c3 # _ \<Rightarrow>
             if cont (if b = 240 then 144 else 128) (if b = 244 then 143 else 191) c1
                \<and> cont 128 191 c2 \<and> cont 128 191 c3
             then 4 else 1
         | _ \<Rightarrow> 1)
      else 1)"

lemma rune_width_pos: "s \<noteq> [] \<Longrightarrow> 0 < rune_width s"
  by (cases s) (auto simp: Let_def split: list.splits)

lemma rune_width_le: "rune_width s \<le> length s"
  by (cases s) (auto simp: Let_def split: list.splits)

text \<open>The UTF-8 sequences of a string, in order (an invalid byte is a sequence of its own).\<close>

function runes :: "string \<Rightarrow> string list" where
  "runes s = (if s = [] then [] else take (rune_width s) s # runes (drop (rune_width s) s))"
  by pat_completeness auto
termination
  by (relation "measure length") (auto simp: rune_width_pos)

declare runes.simps [simp del]

subsection \<open>JSON tool inputs\<close>

datatype json =
    JNull
  | JBool bool
  | JNumber string
  | JString string
  | JArray "json list"
  | JObject "(string \<times> json) list"

text \<open>
  A \<open>json.RawMessage\<close>: either bytes that are not JSON text (\<open>json.Unmarshal\<close> rejects
  them with a \<open>*SyntaxError\<close>, whose message is kept), or the text of a JSON value.
\<close>

datatype raw_message = Invalid string | Valid json

fun json_kind :: "json \<Rightarrow> string" where
  "json_kind JNull = ''null''"
| "json_kind (JBool b) = ''bool''"
| "json_kind (JNumber n) = ''number''"
| "json_kind (JString s) = ''string''"
| "json_kind (JArray xs) = ''array''"
| "json_kind (JObject kvs) = ''object''"

text \<open>
  \<open>foldName\<close> of encoding/json: two keys match without regard to case when their folded
  forms are equal. An ASCII letter folds to its capital; of the other UTF-8 sequences only
  U+017F (long s) and U+212A (Kelvin sign) fold to an ASCII letter, \<open>S\<close> and \<open>K\<close>. Every
  other sequence is left as it is here: it folds to a sequence outside ASCII, and the field
  names of this program are ASCII, so the comparison with a field name comes out the same.
\<close>

definition fold_rune :: "string \<Rightarrow> string" where
  "fold_rune r =
     (case r of
        [c] \<Rightarrow>
          (let n = (of_char c :: nat) in if 97 \<le> n \<and> n \<le> 122 then [char_of (n - 32)] else [c])
      | _ \<Rightarrow>
          (if r = [CHR 0xC5, CHR 0xBF] then ''S''
           else if r = [CHR 0xE2, CHR 0x84, CHR 0xAA] then ''K''
           else r))"

definition foldName :: "string \<Rightarrow> string" where
  "foldName k = concat (map fold_rune (runes k))"

text \<open>
  The struct field a JSON key names: the field of exactly that name, else the first one whose
  folded name is that of the key.
\<close>

definition field_for :: "string list \<Rightarrow> string \<Rightarrow> string option" where
  "field_for fields k =
     (if k \<in> set fields then Some k
      else find (\<lambda>f. foldName f = foldName k) fields)"

text \<open>
  Decoding a JSON object into a struct whose fields are all strings. The pairs are read in
  order: a key that names no field is skipped, a string is stored, \<open>null\<close> leaves the field
  as it is, and a value of any other shape is a type error (the first one is the error
  returned, after the remaining pairs are decoded). The result is the first error and the
  values stored, by field.
\<close>

fun decode_fields ::
  "string \<Rightarrow> string list \<Rightarrow> (string \<times> json) list \<Rightarrow> go_error option \<times> (string \<times> string) list
     \<Rightarrow> go_error option \<times> (string \<times> string) list" where
  "decode_fields s fields [] acc = acc"
| "decode_fields s fields ((k, v) # kvs) (err, vals) =
     (case field_for fields k of
        None \<Rightarrow> decode_fields s fields kvs (err, vals)
      | Some f \<Rightarrow>
          (case v of
             JString x \<Rightarrow> decode_fields s fields kvs (err, (f, x) # vals)
           | JNull \<Rightarrow> decode_fields s fields kvs (err, vals)
           | _ \<Rightarrow>
               decode_fields s fields kvs
                 (if err = None then Some (UnmarshalTypeError (json_kind v) s f) else err, vals)))"

text \<open>
  \<open>json.Unmarshal(input, &v)\<close> for a zero-valued struct \<open>v\<close> of string fields: the values
  of the fields that were set, or the error.
\<close>

fun Unmarshal :: "string \<Rightarrow> string list \<Rightarrow> raw_message \<Rightarrow> go_error + (string \<times> string) list" where
  "Unmarshal s fields (Invalid m) = Inl (SyntaxError m)"
| "Unmarshal s fields (Valid JNull) = Inr []"
| "Unmarshal s fields (Valid (JObject kvs)) =
     (case decode_fields s fields kvs (None, []) of
        (Some e, vals) \<Rightarrow> Inl e
      | (None, vals) \<Rightarrow> Inr vals)"
| "Unmarshal s fields (Valid v) = Inl (UnmarshalTypeError (json_kind v) s [])"

text \<open>The value of a string field after decoding: the last one stored, else the zero value.\<close>

definition field :: "(string \<times> string) list \<Rightarrow> string \<Rightarrow> string" where
  "field vals f = (case map_of vals f of None \<Rightarrow> [] | Some x \<Rightarrow> x)"

section \<open>Package strings\<close>

text \<open>\<open>utf8.RuneCountInString\<close>.\<close>

definition RuneCountInString :: "string \<Rightarrow> nat" where
  "RuneCountInString s = length (runes s)"

text \<open>
  \<open>strings.Index(s, substr)\<close>: the index of the first instance of \<open>substr\<close> in \<open>s\<close>,
  or -1.
\<close>

fun index_from :: "string \<Rightarrow> string \<Rightarrow> nat option" where
  "index_from [] substr = (if substr = [] then Some 0 else None)"
| "index_from (c # cs) substr =
     (if prefix substr (c # cs) then Some 0 else map_option Suc (index_from cs substr))"

definition Index :: "string \<Rightarrow> string \<Rightarrow> int" where
  "Index s substr = (case index_from s substr of None \<Rightarrow> - 1 | Some i \<Rightarrow> int i)"

lemma index_from_bound:
  "index_from s substr = Some i \<Longrightarrow> i + length substr \<le> length s"
proof (induction s arbitrary: i)
  case Nil
  then show ?case by (simp split: if_splits)
next
  case (Cons c cs)
  show ?case
  proof (cases "prefix substr (c # cs)")
    case True
    with Cons.prems show ?thesis by (auto dest: prefix_length_le)
  next
    case False
    with Cons.prems obtain j where "index_from cs substr = Some j" "i = Suc j" by auto
    with Cons.IH show ?thesis by fastforce
  qed
qed

text \<open>
  \<open>strings.Count(s, substr)\<close>: the number of non-overlapping instances of \<open>substr\<close> in
  \<open>s\<close>; for the empty \<open>substr\<close>, one more than the number of UTF-8 sequences of \<open>s\<close>.
\<close>

function count_from :: "string \<Rightarrow> string \<Rightarrow> nat" where
  "count_from s substr =
     (if substr = [] then 0
      else (case index_from s substr of
              None \<Rightarrow> 0
            | Some i \<Rightarrow> Suc (count_from (drop (i + length substr) s) substr)))"
  by pat_completeness auto
termination
proof (relation "measure (\<lambda>(s, substr). length s)")
  show "wf (measure (\<lambda>(s, substr). length s))" by simp
next
  fix s substr :: string and i
  assume "substr \<noteq> []" "index_from s substr = Some i"
  then have "i + length substr \<le> length s" "0 < length substr"
    by (auto dest: index_from_bound)
  then have "length s - (i + length substr) < length s" by arith
  then show "((drop (i + length substr) s, substr), (s, substr)) \<in> measure (\<lambda>(s, substr). length s)"
    by simp
qed

declare count_from.simps [simp del]

definition Count :: "string \<Rightarrow> string \<Rightarrow> nat" where
  "Count s substr = (if substr = [] then RuneCountInString s + 1 else count_from s substr)"

text \<open>
  The loop of \<open>strings.Replace\<close>, \<open>k\<close> replacements to go, on what is left of \<open>s\<close> from
  \<open>start\<close> on; \<open>first\<close> says that this is the iteration \<open>i = 0\<close>. For the empty \<open>old\<close>
  the next match is at the start of the string in the first iteration and after one UTF-8
  sequence in the later ones; otherwise it is where \<open>Index\<close> finds it. What is left after
  the last replacement is copied.
\<close>

fun replace_loop :: "nat \<Rightarrow> bool \<Rightarrow> string \<Rightarrow> string \<Rightarrow> string \<Rightarrow> string" where
  "replace_loop 0 first s old new = s"
| "replace_loop (Suc k) first s old new =
     (let j = (if old = [] then (if first then 0 else rune_width s) else nat (Index s old))
      in take j s @ new @ replace_loop k False (drop (j + length old) s) old new)"

text \<open>
  \<open>strings.Replace(s, old, new, n)\<close>: a copy of \<open>s\<close> with the first \<open>n\<close> non-overlapping
  instances of \<open>old\<close> replaced by \<open>new\<close>, all of them when \<open>n < 0\<close>.
\<close>

definition Replace :: "string \<Rightarrow> string \<Rightarrow> string \<Rightarrow> int \<Rightarrow> string" where
  "Replace s old new n =
     (if old = new \<or> n = 0 then s
      else let m = Count s old in
        if m = 0 then s
        else replace_loop (if n < 0 \<or> int m < n then m else nat n) True s old new)"

text \<open>
  Replacing every instance, said directly: the string is read from left to right, and wherever
  \<open>old\<close> (not empty) starts, \<open>new\<close> is written and reading goes on after that
  instance. This is the reference the loop of \<open>Replace\<close> is compared with.
\<close>

function replace_every :: "string \<Rightarrow> string \<Rightarrow> string \<Rightarrow> string" where
  "replace_every old new [] = []"
| "replace_every old new (c # cs) =
     (if old \<noteq> [] \<and> prefix old (c # cs)
      then new @ replace_every old new (drop (length old) (c # cs))
      else c # replace_every old new cs)"
  by pat_completeness auto
termination
  by (relation "measure (\<lambda>(old, new, s). length s)") (auto simp: neq_Nil_conv)

section \<open>The file system\<close>

text \<open>
  The file system is a tree: a regular file with its bytes, or a directory with its entries by
  name. The process works in the directory at \<open>cwd\<close>, a list of names from the root. There are
  no symbolic links, permissions or quotas: an operation fails only for the shape of the tree.
\<close>

datatype node = File string | Dir "(string \<times> node) list"

record filesystem =
  root :: node
  cwd :: "string list"

text \<open>\<open>info.IsDir()\<close>.\<close>

fun IsDir :: "node \<Rightarrow> bool" where
  "IsDir (Dir es) = True"
| "IsDir (File x) = False"

fun lookup :: "node \<Rightarrow> string list \<Rightarrow> node option" where
  "lookup n [] = Some n"
| "lookup (File x) (c # cs) = None"
| "lookup (Dir es) (c # cs) = (case map_of es c of None \<Rightarrow> None | Some n \<Rightarrow> lookup n cs)"

text \<open>
  \<open>put t loc v\<close> stores \<open>v\<close> at the location \<open>loc\<close>, replacing what is there or adding an
  entry to the directory above; nothing changes when that directory does not exist.
\<close>

fun put :: "node \<Rightarrow> string list \<Rightarrow> node \<Rightarrow> node" where
  "put n [] v = v"
| "put (File x) (c # cs) v = File x"
| "put (Dir es) (c # cs) v =
     (case map_of es c of
        None \<Rightarrow> (if cs = [] then Dir (AList.update c v es) else Dir es)
      | Some n \<Rightarrow> Dir (AList.update c (put n cs v) es))"

subsection \<open>Paths\<close>

text \<open>\<open>strings.Split(p, "/")\<close>: the pieces between the slashes, never an empty list.\<close>

fun split_path :: "string \<Rightarrow> string list" where
  "split_path [] = [[]]"
| "split_path (c # cs) =
     (if c = CHR ''/'' then [] # split_path cs
      else (case split_path cs of x # xs \<Rightarrow> (c # x) # xs | [] \<Rightarrow> [[c]]))"

text \<open>\<open>strings.Join(cs, "/")\<close>.\<close>

fun join :: "string list \<Rightarrow> string" where
  "join [] = []"
| "join [c] = c"
| "join (c # cs) = c @ ''/'' @ join cs"

text \<open>
  A plain path: names separated by single slashes, none of them empty, \<open>.\<close> or \<open>..\<close>.
\<close>

definition proper_name :: "string \<Rightarrow> bool" where
  "proper_name c \<longleftrightarrow> c \<noteq> [] \<and> c \<noteq> ''.'' \<and> c \<noteq> ''..'' \<and> CHR ''/'' \<notin> set c"

definition plain_path :: "string \<Rightarrow> bool" where
  "plain_path p \<longleftrightarrow> (\<forall>c\<in>set (split_path p). proper_name c)"

text \<open>
  How the kernel resolves a path: from the root for a path that starts with a slash, else from
  the working directory, one component at a time. Every component is looked up in a directory
  that must exist; an empty component or \<open>.\<close> stays there, \<open>..\<close> goes one up (the root is
  its own parent). The result is the location the path names, which need not exist.

  The limits are those of Linux: a path of \<open>PATH_MAX\<close> bytes, its closing NUL byte counted, and
  a name of more than \<open>NAME_MAX\<close> bytes are refused with \<open>ENAMETOOLONG\<close>, the name when the
  walk looks it up in a directory. Go itself refuses a path with a NUL byte, with \<open>EINVAL\<close>,
  before it calls the kernel.
\<close>

definition PATH_MAX :: int where
  "PATH_MAX = 4096"

definition NAME_MAX :: int where
  "NAME_MAX = 255"

definition NUL :: char where
  "NUL = CHR 0x00"

definition start_of :: "filesystem \<Rightarrow> string \<Rightarrow> string list" where
  "start_of fs p = (if p \<noteq> [] \<and> hd p = CHR ''/'' then [] else cwd fs)"

definition step :: "string list \<Rightarrow> string \<Rightarrow> string list" where
  "step loc c =
     (if c = [] \<or> c = ''.'' then loc else if c = ''..'' then butlast loc else loc @ [c])"

fun walk_to :: "node \<Rightarrow> string list \<Rightarrow> string list \<Rightarrow> errno + string list" where
  "walk_to t loc [] = Inr loc"
| "walk_to t loc (c # cs) =
     (case lookup t loc of
        None \<Rightarrow> Inl ENOENT
      | Some (File x) \<Rightarrow> Inl ENOTDIR
      | Some (Dir es) \<Rightarrow>
          (if NAME_MAX < int (length c) then Inl ENAMETOOLONG else walk_to t (step loc c) cs))"

definition resolve :: "filesystem \<Rightarrow> string \<Rightarrow> errno + string list" where
  "resolve fs p =
     (if NUL \<in> set p then Inl EINVAL
      else if p = [] then Inl ENOENT
      else if PATH_MAX \<le> int (length p) then Inl ENAMETOOLONG
      else walk_to (root fs) (start_of fs p) (split_path p))"

text \<open>
  \<open>path.Clean\<close> on the components of a path: empty components and \<open>.\<close> go, \<open>..\<close> removes
  the name before it, is dropped at the root of a rooted path and is kept at the front of a
  relative one.
\<close>

fun clean_comps :: "bool \<Rightarrow> string list \<Rightarrow> string list \<Rightarrow> string list" where
  "clean_comps rooted out [] = out"
| "clean_comps rooted out (c # cs) =
     (if c = [] \<or> c = ''.'' then clean_comps rooted out cs
      else if c = ''..'' then
        (if out \<noteq> [] \<and> last out \<noteq> ''..'' then clean_comps rooted (butlast out) cs
         else if rooted then clean_comps rooted out cs
         else clean_comps rooted (out @ [''..'']) cs)
      else clean_comps rooted (out @ [c]) cs)"

definition path_Clean :: "string \<Rightarrow> string" where
  "path_Clean p =
     (let rooted = (p \<noteq> [] \<and> hd p = CHR ''/'');
          s = (if rooted then ''/'' else []) @ join (clean_comps rooted [] (split_path p))
      in if s = [] then ''.'' else s)"

text \<open>
  \<open>path.Dir\<close>: the path up to and with its last slash (\<open>path.Split\<close>), cleaned; \<open>.\<close> for a path
  with no slash.
\<close>

definition path_Dir :: "string \<Rightarrow> string" where
  "path_Dir p = path_Clean (rev (dropWhile (\<lambda>c. c \<noteq> CHR ''/'') (rev p)))"

subsection \<open>Package os\<close>

text \<open>
  \<open>os.ReadFile\<close>: opening fails for a path that is refused, does not resolve or names
  nothing, and reading fails for a directory.
\<close>

definition os_ReadFile :: "filesystem \<Rightarrow> string \<Rightarrow> go_error + string" where
  "os_ReadFile fs p =
     (case resolve fs p of
        Inl e \<Rightarrow> Inl (PathError ''open'' p e)
      | Inr loc \<Rightarrow>
          (case lookup (root fs) loc of
             None \<Rightarrow> Inl (PathError ''open'' p ENOENT)
           | Some (Dir es) \<Rightarrow> Inl (PathError ''read'' p EISDIR)
           | Some (File x) \<Rightarrow> Inr x))"

text \<open>
  \<open>os.WriteFile\<close> opens the path for writing, creating the file when it does not exist and
  truncating it when it does, and writes the data. The directory of a new file must exist.
\<close>

definition os_WriteFile :: "filesystem \<Rightarrow> string \<Rightarrow> string \<Rightarrow> go_error option \<times> filesystem" where
  "os_WriteFile fs p data =
     (case resolve fs p of
        Inl e \<Rightarrow> (Some (PathError ''open'' p e), fs)
      | Inr loc \<Rightarrow>
          (case lookup (root fs) loc of
             Some (Dir es) \<Rightarrow> (Some (PathError ''open'' p EISDIR), fs)
           | _ \<Rightarrow> (None, fs\<lparr>root := put (root fs) loc (File data)\<rparr>)))"

text \<open>
  \<open>os.MkdirAll(p, perm)\<close> creates the directory \<open>p\<close> along with any necessary parents; a
  directory that exists is left as it is, and a regular file on the way is an error. The
  components are followed from the start of the path, and each one that names nothing is
  created as an empty directory; a name with a NUL byte or of more than \<open>NAME_MAX\<close> bytes
  cannot be created, and the directories before it stay. (Go names the failing prefix of \<open>p\<close>
  in the error; here the error names \<open>p\<close>. A path of \<open>PATH_MAX\<close> bytes or more is refused here
  as a whole, where Go still creates the directories of a prefix that is short enough; this
  program hands over the directory of a path that the kernel has taken, which is no longer.)
\<close>

fun mkdir_all :: "node \<Rightarrow> string list \<Rightarrow> string list \<Rightarrow> errno option \<times> node" where
  "mkdir_all t loc [] =
     (case lookup t loc of
        None \<Rightarrow> (Some ENOENT, t)
      | Some (File x) \<Rightarrow> (Some ENOTDIR, t)
      | Some (Dir es) \<Rightarrow> (None, t))"
| "mkdir_all t loc (c # cs) =
     (case lookup t loc of
        None \<Rightarrow> (Some ENOENT, t)
      | Some (File x) \<Rightarrow> (Some ENOTDIR, t)
      | Some (Dir es) \<Rightarrow>
          (if NUL \<in> set c then (Some EINVAL, t)
           else if NAME_MAX < int (length c) then (Some ENAMETOOLONG, t)
           else (case lookup t (step loc c) of
                   None \<Rightarrow> mkdir_all (put t (step loc c) (Dir [])) (step loc c) cs
                 | Some n \<Rightarrow> mkdir_all t (step loc c) cs)))"

definition os_MkdirAll :: "filesystem \<Rightarrow> string \<Rightarrow> go_error option \<times> filesystem" where
  "os_MkdirAll fs p =
     (if p = [] then (Some (PathError ''mkdir'' p ENOENT), fs)
      else if PATH_MAX \<le> int (length p) then (Some (PathError ''mkdir'' p ENAMETOOLONG), fs)
      else (case mkdir_all (root fs) (start_of fs p) (split_path p) of
              (None, t) \<Rightarrow> (None, fs\<lparr>root := t\<rparr>)
            | (Some e, t) \<Rightarrow> (Some (PathError ''mkdir'' p e), fs\<lparr>root := t\<rparr>)))"

text \<open>\<open>os.Lstat\<close>: the node a path names.\<close>

definition os_Lstat :: "filesystem \<Rightarrow> string \<Rightarrow> go_error + node" where
  "os_Lstat fs p =
     (case resolve fs p of
        Inl e \<Rightarrow> Inl (PathError ''lstat'' p e)
      | Inr loc \<Rightarrow>
          (case lookup (root fs) loc of
             None \<Rightarrow> Inl (PathError ''lstat'' p ENOENT)
           | Some n \<Rightarrow> Inr n))"

subsection \<open>Walking a directory tree\<close>

text \<open>\<open>readDirNames\<close>: the names in a directory, sorted.\<close>

definition readDirNames :: "(string \<times> node) list \<Rightarrow> string list" where
  "readDirNames es = sort (remdups (map fst es))"

lemma size_map_of [termination_simp]:
  "map_of es k = Some n \<Longrightarrow> size n < Suc (size_list (\<lambda>x. Suc (size (snd x))) es)"
  by (induction es) (auto split: if_splits)

text \<open>
  The visits of \<open>filepath.Walk\<close> below a node, in order: the node itself, then for a
  directory the walks of its entries by sorted name. A visit is recorded with the names that
  lead to it from the root of the walk.
\<close>

fun walk :: "string list \<Rightarrow> node \<Rightarrow> (string list \<times> node) list" where
  "walk rel (File x) = [(rel, File x)]"
| "walk rel (Dir es) =
     (rel, Dir es) #
     concat (map (\<lambda>name. case map_of es name of None \<Rightarrow> [] | Some n \<Rightarrow> walk (rel @ [name]) n)
                 (readDirNames es))"

text \<open>
  \<open>filepath.Walk(root, fn)\<close> with a function that threads a value through the visits.
  When the root cannot be examined the function is called with the error, and the function of
  this program returns it. In a visit, \<open>path\<close> is the root as given or
  \<open>filepath.Join(root, names...)\<close>, so \<open>filepath.Rel(root, path)\<close> is \<open>.\<close> for the root and
  the names joined by slashes below it; the function is handed that relative path.
\<close>

definition filepath_Rel :: "string list \<Rightarrow> string" where
  "filepath_Rel rel = (if rel = [] then ''.'' else join rel)"

definition filepath_Walk ::
  "filesystem \<Rightarrow> string \<Rightarrow> ('a \<Rightarrow> string \<Rightarrow> node \<Rightarrow> 'a) \<Rightarrow> 'a \<Rightarrow> go_error + 'a" where
  "filepath_Walk fs root_path fn acc =
     (case os_Lstat fs root_path of
        Inl err \<Rightarrow> Inl err
      | Inr n \<Rightarrow> Inr (foldl (\<lambda>a (rel, info). fn a (filepath_Rel rel) info) acc (walk [] n)))"

section \<open>Package encoding/json: encoding a slice of strings\<close>

text \<open>
  A Go slice of strings is \<open>nil\<close> (\<open>None\<close>) or holds elements; \<open>append\<close> to \<open>nil\<close> gives a
  slice of one element.
\<close>

definition go_append :: "string list option \<Rightarrow> string \<Rightarrow> string list option" where
  "go_append xs x = (case xs of None \<Rightarrow> Some [x] | Some ys \<Rightarrow> Some (ys @ [x]))"

definition hex_digit :: "nat \<Rightarrow> char" where
  "hex_digit n = ''0123456789abcdef'' ! (n mod 16)"

text \<open>
  How \<open>json.Marshal\<close> writes one UTF-8 sequence of a string: quote and backslash are escaped,
  control characters and the characters \<open><\<close>, \<open>>\<close>, \<open>&\<close>, U+2028 and U+2029 are written
  as escapes of the form backslash, u, four hex digits (with the short forms for backspace,
  form feed, newline, return and tab), a byte that is not valid UTF-8 becomes the escape of
  U+FFFD, and everything else is copied.
\<close>

definition json_escape :: "string \<Rightarrow> string" where
  "json_escape r =
     (case r of
        [c] \<Rightarrow>
          (let b = (of_char c :: nat) in
           if b = 34 then [CHR 0x5C, CHR 0x22]
           else if b = 92 then [CHR 0x5C, CHR 0x5C]
           else if b = 8 then CHR 0x5C # ''b''
           else if b = 12 then CHR 0x5C # ''f''
           else if b = 10 then CHR 0x5C # ''n''
           else if b = 13 then CHR 0x5C # ''r''
           else if b = 9 then CHR 0x5C # ''t''
           else if b < 32 \<or> b = 60 \<or> b = 62 \<or> b = 38 then
             CHR 0x5C # ''u00'' @ [hex_digit (b div 16), hex_digit b]
           else if 128 \<le> b then CHR 0x5C # ''ufffd''
           else r)
      | _ \<Rightarrow>
          (if r = [CHR 0xE2, CHR 0x80, CHR 0xA8] then CHR 0x5C # ''u2028''
           else if r = [CHR 0xE2, CHR 0x80, CHR 0xA9] then CHR 0x5C # ''u2029''
           else r))"

definition json_string :: "string \<Rightarrow> string" where
  "json_string s = [CHR 0x22] @ concat (map json_escape (runes s)) @ [CHR 0x22]"

fun commas :: "string list \<Rightarrow> string" where
  "commas [] = []"
| "commas [x] = x"
| "commas (x # xs) = x @ '','' @ commas xs"

text \<open>
  \<open>json.Marshal\<close> of a slice of strings: a JSON array, and the JSON value \<open>null\<close> for a
  \<open>nil\<close> slice. It has no error for a slice of strings.
\<close>

definition json_Marshal :: "string list option \<Rightarrow> string" where
  "json_Marshal xs =
     (case xs of None \<Rightarrow> ''null'' | Some ys \<Rightarrow> ''['' @ commas (map json_string ys) @ '']'')"

section \<open>The tools\<close>

text \<open>
  A tool function takes the raw input and the file system and either panics or returns its
  text or error, with the file system as it left it. Of a \<open>ToolDefinition\<close> the name and
  the function are kept; the description and the input schema are texts for the inference
  service and decide nothing here.
\<close>

type_synonym tool_function =
  "raw_message \<Rightarrow> filesystem \<Rightarrow> ((go_error + string) \<times> filesystem) outcome"

record ToolDefinition =
  Name :: string
  Function :: tool_function

subsection \<open>read_file\<close>

text \<open>\<open>ReadFileInput\<close> and \<open>ListFilesInput\<close> have the one field \<open>Path\<close>, JSON key \<open>path\<close>.\<close>

definition unmarshal_path :: "string \<Rightarrow> raw_message \<Rightarrow> go_error + string" where
  "unmarshal_path struct input =
     (case Unmarshal struct [''path''] input of
        Inl err \<Rightarrow> Inl err
      | Inr vals \<Rightarrow> Inr (field vals ''path''))"

definition ReadFile :: "raw_message \<Rightarrow> filesystem \<Rightarrow> go_error + string" where
  "ReadFile input fs =
     (case unmarshal_path ''ReadFileInput'' input of
        Inl err \<Rightarrow> Inl (Wrapf ''invalid input format: '' err)
      | Inr path \<Rightarrow>
          (case os_ReadFile fs path of
             Inl err \<Rightarrow> Inl (Wrapf (''failed to read file '' @ path @ '': '') err)
           | Inr content \<Rightarrow> Inr content))"

definition ReadFileDefinition :: ToolDefinition where
  "ReadFileDefinition =
     \<lparr>Name = ''read_file'',
      Function = (\<lambda>input fs. Returns (ReadFile input fs, fs))\<rparr>"

subsection \<open>list_files\<close>

text \<open>The function \<open>ListFiles\<close> hands to \<open>filepath.Walk\<close>, for a visit without error.\<close>

definition ListFiles_visit :: "string list option \<Rightarrow> string \<Rightarrow> node \<Rightarrow> string list option" where
  "ListFiles_visit files relPath info =
     (if relPath \<noteq> ''.'' then
        (if IsDir info then go_append files (relPath @ ''/'') else go_append files relPath)
      else files)"

definition ListFiles :: "raw_message \<Rightarrow> filesystem \<Rightarrow> (go_error + string) outcome" where
  "ListFiles input fs =
     (case unmarshal_path ''ListFilesInput'' input of
        Inl err \<Rightarrow> Panic err
      | Inr path \<Rightarrow>
          (let dir = (if path \<noteq> [] then path else ''.'') in
           case filepath_Walk fs dir ListFiles_visit None of
             Inl err \<Rightarrow> Returns (Inl err)
           | Inr files \<Rightarrow> Returns (Inr (json_Marshal files))))"

definition ListFilesDefinition :: ToolDefinition where
  "ListFilesDefinition =
     \<lparr>Name = ''list_files'',
      Function = (\<lambda>input fs. case ListFiles input fs of
                                Panic e \<Rightarrow> Panic e
                              | Returns r \<Rightarrow> Returns (r, fs))\<rparr>"

subsection \<open>edit_file\<close>

record EditFileInput =
  Path :: string
  OldStr :: string
  NewStr :: string

definition unmarshal_EditFileInput :: "raw_message \<Rightarrow> go_error + EditFileInput" where
  "unmarshal_EditFileInput input =
     (case Unmarshal ''EditFileInput'' [''path'', ''old_str'', ''new_str''] input of
        Inl err \<Rightarrow> Inl err
      | Inr vals \<Rightarrow>
          Inr \<lparr>Path = field vals ''path'', OldStr = field vals ''old_str'',
               NewStr = field vals ''new_str''\<rparr>)"

definition createNewFile :: "string \<Rightarrow> string \<Rightarrow> filesystem \<Rightarrow> (go_error + string) \<times> filesystem" where
  "createNewFile filePath content fs =
     (let dir = path_Dir filePath;
          (err, fs1) = (if dir \<noteq> ''.'' then os_MkdirAll fs dir else (None, fs))
      in case err of
           Some e \<Rightarrow> (Inl (Wrapf ''failed to create directory: '' e), fs1)
         | None \<Rightarrow>
             (case os_WriteFile fs1 filePath content of
                (Some e, fs2) \<Rightarrow> (Inl (Wrapf ''failed to create file: '' e), fs2)
              | (None, fs2) \<Rightarrow> (Inr (''Successfully created file '' @ filePath), fs2)))"

definition EditFile :: "raw_message \<Rightarrow> filesystem \<Rightarrow> (go_error + string) \<times> filesystem" where
  "EditFile input fs =
     (case unmarshal_EditFileInput input of
        Inl err \<Rightarrow> (Inl err, fs)
      | Inr editFileInput \<Rightarrow>
          if Path editFileInput = [] \<or> OldStr editFileInput = NewStr editFileInput
          then (Inl (Errorf ''invalid input parameters''), fs)
          else
            (case os_ReadFile fs (Path editFileInput) of
               Inl err \<Rightarrow>
                 if IsNotExist err \<and> OldStr editFileInput = []
                 then createNewFile (Path editFileInput) (NewStr editFileInput) fs
                 else (Inl err, fs)
             | Inr oldContent \<Rightarrow>
                 (let newContent =
                        Replace oldContent (OldStr editFileInput) (NewStr editFileInput) (- 1)
                  in if oldContent = newContent \<and> OldStr editFileInput \<noteq> []
                     then (Inl (Errorf ''old_str not found in file''), fs)
                     else
                       (case os_WriteFile fs (Path editFileInput) newContent of
                          (Some err, fs') \<Rightarrow> (Inl err, fs')
                        | (None, fs') \<Rightarrow> (Inr ''OK'', fs')))))"

definition EditFileDefinition :: ToolDefinition where
  "EditFileDefinition =
     \<lparr>Name = ''edit_file'',
      Function = (\<lambda>input fs. Returns (EditFile input fs))\<rparr>"

section \<open>The agent\<close>

subsection \<open>Messages\<close>

text \<open>
  A content block of a reply of the model, by its \<open>Type\<close>: text, a tool invocation with its
  id, tool name and raw input, or a block of another type.
\<close>

datatype content_block =
    Text string
  | ToolUse string string raw_message
  | OtherBlock string

text \<open>A content block of a turn of the conversation (\<open>ContentBlockParamUnion\<close>).\<close>

datatype content_param =
    TextParam string
  | ToolUseParam string string raw_message
  | ToolResultParam string string bool
  | OtherParam string

datatype role = User | Assistant

datatype message_param = MessageParam role "content_param list"

record message =
  Content :: "content_block list"

definition NewTextBlock :: "string \<Rightarrow> content_param" where
  "NewTextBlock t = TextParam t"

definition NewToolResultBlock :: "string \<Rightarrow> string \<Rightarrow> bool \<Rightarrow> content_param" where
  "NewToolResultBlock toolUseID content isError = ToolResultParam toolUseID content isError"

definition NewUserMessage :: "content_param list \<Rightarrow> message_param" where
  "NewUserMessage blocks = MessageParam User blocks"

fun block_ToParam :: "content_block \<Rightarrow> content_param" where
  "block_ToParam (Text t) = TextParam t"
| "block_ToParam (ToolUse i n inp) = ToolUseParam i n inp"
| "block_ToParam (OtherBlock ty) = OtherParam ty"

definition ToParam :: "message \<Rightarrow> message_param" where
  "ToParam m = MessageParam Assistant (map block_ToParam (Content m))"

subsection \<open>The world the agent runs in\<close>

text \<open>What the program prints, one value per print statement.\<close>

datatype printed =
    Greeting
  | Prompt
  | ClaudeSays string
  | ToolLine string raw_message
  | OverloadedNotice
  | ErrorLine string

text \<open>
  A request to the inference service: the conversation and the names of the tools offered
  (the model name and the token limit are the same in every request).
\<close>

record request =
  Messages :: "message_param list"
  Tools :: "string list"

text \<open>
  The world: the file system, the lines still to come on standard input, what has been
  printed, and the requests sent to the inference service, oldest first.
\<close>

record world =
  files :: filesystem
  stdin :: "string list"
  stdout :: "printed list"
  requests :: "request list"

definition print :: "printed \<Rightarrow> world \<Rightarrow> world" where
  "print x w = w\<lparr>stdout := stdout w @ [x]\<rparr>"

text \<open>
  The agent: the remote service behind its client, which answers a request with a reply or an
  error and may take the earlier requests into account, and the tools. Its \<open>getUserMessage\<close>
  is the function \<open>main\<close> builds on the scanner of standard input: \<open>bufio.Scanner\<close> with its
  default split function and buffer. \<open>stdin\<close> holds the lines to come without their line feed.
  The scanner hands over a line without one carriage return at its end; a line of
  \<open>MaxScanTokenSize\<close> bytes or more does not fit its buffer, \<open>Scan\<close> returns false as it does at
  the end of the input, and the line stays unread.
\<close>

definition MaxScanTokenSize :: int where
  "MaxScanTokenSize = 65536"

definition dropCR :: "string \<Rightarrow> string" where
  "dropCR l = (if l \<noteq> [] \<and> last l = CHR 0x0D then butlast l else l)"

record Agent =
  client :: "request list \<Rightarrow> request \<Rightarrow> go_error + message"
  tools :: "ToolDefinition list"

definition getUserMessage :: "world \<Rightarrow> (string \<times> bool) \<times> world" where
  "getUserMessage w =
     (case stdin w of
        [] \<Rightarrow> (([], False), w)
      | l # ls \<Rightarrow>
          (if MaxScanTokenSize \<le> int (length l) then (([], False), w)
           else ((dropCR l, True), w\<lparr>stdin := ls\<rparr>)))"

subsection \<open>Tool execution\<close>

definition executeTool ::
  "Agent \<Rightarrow> string \<Rightarrow> string \<Rightarrow> raw_message \<Rightarrow> world \<Rightarrow> (content_param \<times> world) outcome" where
  "executeTool a tid name input w =
     (case find (\<lambda>tool. Name tool = name) (tools a) of
        None \<Rightarrow> Returns (NewToolResultBlock tid ''tool not found'' True, w)
      | Some toolDef \<Rightarrow>
          (let w1 = print (ToolLine name input) w in
           case Function toolDef input (files w1) of
             Panic e \<Rightarrow> Panic e
           | Returns (Inl err, fs) \<Rightarrow>
               Returns (NewToolResultBlock tid (error_text err) True, w1\<lparr>files := fs\<rparr>)
           | Returns (Inr response, fs) \<Rightarrow>
               Returns (NewToolResultBlock tid response False, w1\<lparr>files := fs\<rparr>)))"

text \<open>
  The world in which \<open>executeTool\<close> ends, by a return or by a panic of the tool. The line that
  announces the tool is printed before the tool runs, so it is there in both cases. A tool
  that panics leaves the files as it found them: the one tool of this program that can panic
  does so before it touches the file system.
\<close>

definition executeTool_world :: "Agent \<Rightarrow> string \<Rightarrow> raw_message \<Rightarrow> world \<Rightarrow> world" where
  "executeTool_world a name input w =
     (case find (\<lambda>tool. Name tool = name) (tools a) of
        None \<Rightarrow> w
      | Some toolDef \<Rightarrow>
          (let w1 = print (ToolLine name input) w in
           case Function toolDef input (files w1) of
             Panic e \<Rightarrow> w1
           | Returns (r, fs) \<Rightarrow> w1\<lparr>files := fs\<rparr>))"

text \<open>
  The loop of \<open>processClaudeResponse\<close> over the content of a reply, with the tool results
  collected so far.
\<close>

fun process_blocks ::
  "Agent \<Rightarrow> content_block list \<Rightarrow> content_param list \<Rightarrow> world
     \<Rightarrow> (content_param list \<times> world) outcome" where
  "process_blocks a [] toolResults w = Returns (toolResults, w)"
| "process_blocks a (Text t # rest) toolResults w =
     process_blocks a rest toolResults (print (ClaudeSays t) w)"
| "process_blocks a (ToolUse i n inp # rest) toolResults w =
     (case executeTool a i n inp w of
        Panic e \<Rightarrow> Panic e
      | Returns (result, w') \<Rightarrow> process_blocks a rest (toolResults @ [result]) w')"
| "process_blocks a (OtherBlock ty # rest) toolResults w = process_blocks a rest toolResults w"

definition processClaudeResponse ::
  "Agent \<Rightarrow> message \<Rightarrow> world \<Rightarrow> (content_param list \<times> world) outcome" where
  "processClaudeResponse a m w = process_blocks a (Content m) [] w"

text \<open>
  The world in which that loop ends: after the last block, or where a tool panics, with all
  that the blocks before it have printed and written.
\<close>

fun process_blocks_world :: "Agent \<Rightarrow> content_block list \<Rightarrow> world \<Rightarrow> world" where
  "process_blocks_world a [] w = w"
| "process_blocks_world a (Text t # rest) w = process_blocks_world a rest (print (ClaudeSays t) w)"
| "process_blocks_world a (ToolUse i n inp # rest) w =
     (case executeTool a i n inp w of
        Panic e \<Rightarrow> executeTool_world a n inp w
      | Returns (result, w') \<Rightarrow> process_blocks_world a rest w')"
| "process_blocks_world a (OtherBlock ty # rest) w = process_blocks_world a rest w"

subsection \<open>Inference\<close>

definition runInference :: "Agent \<Rightarrow> message_param list \<Rightarrow> world \<Rightarrow> (go_error + message) \<times> world" where
  "runInference a conversation w =
     (let req = \<lparr>Messages = conversation, Tools = map Name (tools a)\<rparr>
      in (client a (requests w) req, w\<lparr>requests := requests w @ [req]\<rparr>))"

subsection \<open>The conversation loop\<close>

text \<open>
  The variables of \<open>Run\<close> that live across iterations of its loop, and how one iteration
  ends: it goes on to the next one, or the function returns (\<open>nil\<close> after the \<open>break\<close>,
  or an error), or the process dies in a panic.
\<close>

record run_state =
  conversation :: "message_param list"
  readUserInput :: bool
  the_world :: world

datatype exit = ReturnNil | ReturnErr go_error | Panicked go_error

datatype iteration = Next run_state | Done exit world

text \<open>
  What an iteration of the loop of \<open>Run\<close> does once the user input is in. When a tool
  panics the process ends there, in the world the blocks of the reply have led to.
\<close>

definition Run_reply :: "Agent \<Rightarrow> message_param list \<Rightarrow> world \<Rightarrow> iteration" where
  "Run_reply a conv w =
     (case runInference a conv w of
        (Inl err, w1) \<Rightarrow> Done (ReturnErr err) w1
      | (Inr m, w1) \<Rightarrow>
          (let conv1 = conv @ [ToParam m] in
           case processClaudeResponse a m w1 of
             Panic e \<Rightarrow> Done (Panicked e) (process_blocks_world a (Content m) w1)
           | Returns (toolResults, w2) \<Rightarrow>
               if length toolResults > 0
               then Next \<lparr>conversation = conv1 @ [NewUserMessage toolResults],
                          readUserInput = False, the_world = w2\<rparr>
               else Next \<lparr>conversation = conv1, readUserInput = True, the_world = w2\<rparr>))"

text \<open>One iteration of the loop of \<open>Run\<close> in \<open>main.go\<close>.\<close>

definition Run_iteration :: "Agent \<Rightarrow> run_state \<Rightarrow> iteration" where
  "Run_iteration a s =
     (if readUserInput s then
        (case getUserMessage (print Prompt (the_world s)) of
           ((userInput, False), w) \<Rightarrow> Done ReturnNil w
         | ((userInput, True), w) \<Rightarrow>
             Run_reply a (conversation s @ [NewUserMessage [NewTextBlock userInput]]) w)
      else Run_reply a (conversation s) (the_world s))"

partial_function (option) Run_loop :: "Agent \<Rightarrow> run_state \<Rightarrow> (exit \<times> world) option" where
  "Run_loop a s =
     (case Run_iteration a s of
        Next s' \<Rightarrow> Run_loop a s'
      | Done e w \<Rightarrow> Some (e, w))"

text \<open>
  \<open>Agent.Run\<close> of \<open>main.go\<close>; \<open>None\<close> when the loop never ends.
\<close>

definition Run :: "Agent \<Rightarrow> world \<Rightarrow> (exit \<times> world) option" where
  "Run a w =
     Run_loop a \<lparr>conversation = [], readUserInput = True, the_world = print Greeting w\<rparr>"

text \<open>
  How \<open>main\<close> ends after \<open>Run\<close>: it prints an error and exits with status 1, exits with
  status 0 after a clean return, and a panic ends the process with status 2.
\<close>

fun main_exit :: "exit \<times> world \<Rightarrow> nat \<times> world" where
  "main_exit (ReturnNil, w) = (0, w)"
| "main_exit (ReturnErr err, w) = (1, print (ErrorLine (error_text err)) w)"
| "main_exit (Panicked e, w) = (2, w)"

text \<open>The tools \<open>main\<close> registers.\<close>

definition main_tools :: "ToolDefinition list" where
  "main_tools = [ReadFileDefinition, ListFilesDefinition, EditFileDefinition]"

subsection \<open>The conversation loop without tools\<close>

text \<open>
  The repository holds a second \<open>Agent.Run\<close>, in the source file without tool dispatch.
  Every iteration reads a line; a failed inference whose text contains \<open>overloaded_error\<close>
  is reported and the loop goes on to the next line (the user turn stays in the conversation),
  and any other failure is returned. It is modelled as \<open>Run_chat\<close>; its state has no
  \<open>readUserInput\<close>, which is kept on here.
\<close>

definition Contains :: "string \<Rightarrow> string \<Rightarrow> bool" where
  "Contains s substr = (Index s substr \<ge> 0)"

definition runInference_chat :: "Agent \<Rightarrow> message_param list \<Rightarrow> world \<Rightarrow> (go_error + message) \<times> world" where
  "runInference_chat a conv w =
     (let req = \<lparr>Messages = conv, Tools = []\<rparr>
      in (client a (requests w) req, w\<lparr>requests := requests w @ [req]\<rparr>))"

fun print_texts :: "content_block list \<Rightarrow> world \<Rightarrow> world" where
  "print_texts [] w = w"
| "print_texts (Text t # rest) w = print_texts rest (print (ClaudeSays t) w)"
| "print_texts (b # rest) w = print_texts rest w"

definition Run_chat_iteration :: "Agent \<Rightarrow> run_state \<Rightarrow> iteration" where
  "Run_chat_iteration a s =
     (case getUserMessage (print Prompt (the_world s)) of
        ((userInput, False), w) \<Rightarrow> Done ReturnNil w
      | ((userInput, True), w) \<Rightarrow>
          (let conv = conversation s @ [NewUserMessage [NewTextBlock userInput]] in
           case runInference_chat a conv w of
             (Inl err, w1) \<Rightarrow>
               if Contains (error_text err) ''overloaded_error''
               then Next \<lparr>conversation = conv, readUserInput = True,
                          the_world = print OverloadedNotice w1\<rparr>
               else Done (ReturnErr err) w1
           | (Inr m, w1) \<Rightarrow>
               Next \<lparr>conversation = conv @ [ToParam m], readUserInput = True,
                     the_world = print_texts (Content m) w1\<rparr>))"

partial_function (option) Run_chat_loop :: "Agent \<Rightarrow> run_state \<Rightarrow> (exit \<times> world) option" where
  "Run_chat_loop a s =
     (case Run_chat_iteration a s of
        Next s' \<Rightarrow> Run_chat_loop a s'
      | Done e w \<Rightarrow> Some (e, w))"

definition Run_chat :: "Agent \<Rightarrow> world \<Rightarrow> (exit \<times> world) option" where
  "Run_chat a w =
     Run_chat_loop a \<lparr>conversation = [], readUserInput = True, the_world = print Greeting w\<rparr>"

subsection \<open>Reading off an iteration\<close>

text \<open>
  The loops are code equations, so that a run that ends can be evaluated.
\<close>

declare Run_loop.simps [code]

declare Run_chat_loop.simps [code]

text \<open>The world an iteration leaves, and the request \<open>runInference\<close> sends for a conversation.\<close>

fun iteration_world :: "iteration \<Rightarrow> world" where
  "iteration_world (Next s) = the_world s"
| "iteration_world (Done e w) = w"

definition request_for :: "Agent \<Rightarrow> message_param list \<Rightarrow> request" where
  "request_for a conv = \<lparr>Messages = conv, Tools = map Name (tools a)\<rparr>"

section \<open>Example inputs\<close>

text \<open>
  A small file system: the working directory \<open>/home\<close> holds a file, an empty directory and a
  directory with one file.
\<close>

definition example_fs :: filesystem where
  "example_fs =
     \<lparr>root = Dir [(''home'', Dir [(''a.txt'', File ''aXbXc''), (''empty'', Dir []),
                                   (''src'', Dir [(''x.go'', File ''package main'')])])],
      cwd = [''home'']\<rparr>"

definition example_world :: world where
  "example_world = \<lparr>files = example_fs, stdin = [''hello''], stdout = [], requests = []\<rparr>"

text \<open>The input of \<open>edit_file\<close> with the three fields given as JSON strings.\<close>

definition edit_input :: "string \<Rightarrow> string \<Rightarrow> string \<Rightarrow> raw_message" where
  "edit_input p old new =
     Valid (JObject [(''path'', JString p), (''old_str'', JString old), (''new_str'', JString new)])"

text \<open>The input of \<open>read_file\<close> for a path.\<close>

definition read_input :: "string \<Rightarrow> raw_message" where
  "read_input p = Valid (JObject [(''path'', JString p)])"

lemma unmarshal_edit_input:
  "unmarshal_EditFileInput (edit_input p old new) = Inr \<lparr>Path = p, OldStr = old, NewStr = new\<rparr>"
  by (simp add: unmarshal_EditFileInput_def edit_input_def field_for_def field_def)

text \<open>
  An agent whose model first asks for the files of \<open>src\<close> and then answers in text, with the
  conversation, the reply and the tool result of that exchange.
\<close>

definition list_src_input :: raw_message where
  "list_src_input = Valid (JObject [(''path'', JString ''src'')])"

definition example_agent :: Agent where
  "example_agent =
     \<lparr>client = (\<lambda>earlier req.
         if earlier = []
         then Inr \<lparr>Content = [Text ''Let me look.'', ToolUse ''toolu_1'' ''list_files'' list_src_input]\<rparr>
         else Inr \<lparr>Content = [Text ''There is one file.'']\<rparr>),
      tools = main_tools\<rparr>"

definition example_conversation :: "message_param list" where
  "example_conversation = [MessageParam User [TextParam ''list files'']]"

definition example_reply :: message where
  "example_reply =
     \<lparr>Content = [Text ''Let me look.'', ToolUse ''toolu_1'' ''list_files'' list_src_input]\<rparr>"

definition example_result :: content_param where
  "example_result =
     ToolResultParam ''toolu_1'' ([CHR ''['', CHR 0x22] @ ''x.go'' @ [CHR 0x22, CHR '']'']) False"

definition conversation_after_tool :: "message_param list" where
  "conversation_after_tool =
     example_conversation @ [ToParam example_reply, MessageParam User [example_result]]"

text \<open>
  A run of that agent on one line of input, \<open>list files\<close>: the world at the start, the state
  in which \<open>Run\<close> enters its loop, the world at the first inference call, the world and the
  state after the tool has run, the second reply, and the world and the state after it.
\<close>

definition listing_world :: world where
  "listing_world = \<lparr>files = example_fs, stdin = [''list files''], stdout = [], requests = []\<rparr>"

definition listing_start :: run_state where
  "listing_start = \<lparr>conversation = [], readUserInput = True, the_world = print Greeting listing_world\<rparr>"

definition world_at_call :: world where
  "world_at_call = listing_world\<lparr>stdin := [], stdout := [Greeting, Prompt]\<rparr>"

definition world_after_listing :: world where
  "world_after_listing =
     listing_world
       \<lparr>stdin := [],
        stdout := [Greeting, Prompt, ClaudeSays ''Let me look.'',
                   ToolLine ''list_files'' list_src_input],
        requests := [request_for example_agent example_conversation]\<rparr>"

definition listing_answer :: message where
  "listing_answer = \<lparr>Content = [Text ''There is one file.'']\<rparr>"

definition world_after_answer :: world where
  "world_after_answer =
     world_after_listing
       \<lparr>stdout := stdout world_after_listing @ [ClaudeSays ''There is one file.''],
        requests := [request_for example_agent example_conversation,
                     request_for example_agent conversation_after_tool]\<rparr>"

definition state_after_listing :: run_state where
  "state_after_listing =
     \<lparr>conversation = conversation_after_tool, readUserInput = False,
      the_world = world_after_listing\<rparr>"

definition state_after_answer :: run_state where
  "state_after_answer =
     \<lparr>conversation = conversation_after_tool @ [ToParam listing_answer], readUserInput = True,
      the_world = world_after_answer\<rparr>"

text \<open>An agent whose inference call always fails with the overload error of the service.\<close>

definition overloaded_agent :: Agent where
  "overloaded_agent =
     \<lparr>client = (\<lambda>earlier req. Inl (APIError ''529 overloaded_error: Overloaded'')),
      tools = main_tools\<rparr>"

text \<open>
  An input whose \<open>path\<close> is a number, the input that lists the empty directory, and an agent
  whose model invokes \<open>list_files\<close> with the first.
\<close>

definition bad_path_input :: raw_message where
  "bad_path_input = Valid (JObject [(''path'', JNumber ''5'')])"

definition list_empty_input :: raw_message where
  "list_empty_input = Valid (JObject [(''path'', JString ''empty'')])"

definition panic_agent :: Agent where
  "panic_agent =
     \<lparr>client = (\<lambda>earlier req. Inr \<lparr>Content = [ToolUse ''toolu_1'' ''list_files'' bad_path_input]\<rparr>),
      tools = main_tools\<rparr>"

section \<open>Dispatch of a tool invocation\<close>

text \<open>
  Claim C8. For every invocation id, every input and every tool name that no registered tool
  has, \<open>executeTool\<close> returns (it does not panic) a tool result with that id, the message
  \<open>tool not found\<close> and the error flag set; nothing is printed and no tool runs, so the
  world is as before.
\<close>

theorem executeTool_unknown_tool:
  "name \<notin> Name ` set (tools a) \<Longrightarrow>
   executeTool a tid name input w = Returns (ToolResultParam tid ''tool not found'' True, w)"
proof -
  assume "name \<notin> Name ` set (tools a)"
  then have "find (\<lambda>tool. Name tool = name) (tools a) = None"
    by (auto simp: find_None_iff)
  then show ?thesis
    by (simp add: executeTool_def NewToolResultBlock_def)
qed

theorem executeTool_unknown_tool_witness:
  "''write_file'' \<notin> Name ` set main_tools \<and>
   executeTool \<lparr>client = (\<lambda>rs r. Inl (APIError [])), tools = main_tools\<rparr>
      ''toolu_1'' ''write_file'' (Valid (JObject [])) example_world
   = Returns (ToolResultParam ''toolu_1'' ''tool not found'' True, example_world)"
proof -
  have h: "''write_file''
             \<notin> Name ` set (tools \<lparr>client = (\<lambda>rs r. Inl (APIError [])), tools = main_tools\<rparr>)"
    by (simp add: main_tools_def ReadFileDefinition_def ListFilesDefinition_def
        EditFileDefinition_def)
  from executeTool_unknown_tool [OF h] h show ?thesis by simp
qed

section \<open>edit_file\<close>

subsection \<open>The guard on the parameters\<close>

text \<open>
  Claim C9. For every input of \<open>edit_file\<close> that decodes to an empty path, or to an
  \<open>old_str\<close> equal to \<open>new_str\<close>, the call fails with the error
  \<open>invalid input parameters\<close>. The result is the same for every file system and the file
  system is returned as it was: the guard comes before any file operation.
\<close>

theorem EditFile_invalid_parameters:
  assumes "unmarshal_EditFileInput input = Inr inp"
    and "Path inp = [] \<or> OldStr inp = NewStr inp"
  shows "EditFile input fs = (Inl (Errorf ''invalid input parameters''), fs)"
  using assms by (auto simp: EditFile_def)

theorem EditFile_invalid_parameters_witness:
  "unmarshal_EditFileInput (edit_input ''a.txt'' ''X'' ''X'')
     = Inr \<lparr>Path = ''a.txt'', OldStr = ''X'', NewStr = ''X''\<rparr> \<and>
   unmarshal_EditFileInput (edit_input [] ''X'' ''Y'')
     = Inr \<lparr>Path = [], OldStr = ''X'', NewStr = ''Y''\<rparr> \<and>
   EditFile (edit_input ''a.txt'' ''X'' ''X'') example_fs
     = (Inl (Errorf ''invalid input parameters''), example_fs) \<and>
   EditFile (edit_input [] ''X'' ''Y'') example_fs
     = (Inl (Errorf ''invalid input parameters''), example_fs)"
  using EditFile_invalid_parameters [OF unmarshal_edit_input, of "''a.txt''" "''X''" "''X''" example_fs]
    EditFile_invalid_parameters [OF unmarshal_edit_input, of "[]" "''X''" "''Y''" example_fs]
  by (simp add: unmarshal_edit_input)

subsection \<open>Facts about \<open>strings.Replace\<close>\<close>

lemma index_from_None: "index_from s old = None \<longleftrightarrow> \<not> sublist old s"
proof (induction s)
  case Nil
  then show ?case by auto
next
  case (Cons c cs)
  then show ?case by (auto simp: sublist_Cons_right)
qed

lemma index_from_Some:
  "index_from s old = Some i \<Longrightarrow> s = take i s @ old @ drop (i + length old) s"
proof (induction s arbitrary: i)
  case Nil
  then show ?case by (simp split: if_splits)
next
  case (Cons c cs)
  show ?case
  proof (cases "prefix old (c # cs)")
    case True
    then obtain r where r: "c # cs = old @ r" by (auto simp: prefix_def)
    from True Cons.prems have "i = 0" by simp
    with r show ?thesis by simp
  next
    case False
    with Cons.prems obtain j where j: "index_from cs old = Some j" "i = Suc j" by auto
    from Cons.IH [OF j(1)] j(2) show ?thesis by simp
  qed
qed

lemma replace_loop_nonempty:
  "old \<noteq> [] \<Longrightarrow> replace_loop k b s old new = replace_loop k False s old new"
  by (cases k) simp_all

lemma replace_loop_count:
  assumes "old \<noteq> []"
  shows "replace_loop (count_from s old) False s old new =
     (case index_from s old of
        None \<Rightarrow> s
      | Some i \<Rightarrow> take i s @ new @
          replace_loop (count_from (drop (i + length old) s) old) False (drop (i + length old) s) old new)"
  using assms by (subst count_from.simps) (simp add: Index_def split: option.splits)

lemma Replace_all_unfold:
  assumes "old \<noteq> []" "old \<noteq> new"
  shows "Replace s old new (- 1) =
     (case index_from s old of
        None \<Rightarrow> s
      | Some i \<Rightarrow> take i s @ new @ Replace (drop (i + length old) s) old new (- 1))"
proof -
  have R: "Replace t old new (- 1) = replace_loop (count_from t old) False t old new" for t
    using assms by (cases "count_from t old") (simp_all add: Replace_def Count_def Let_def)
  show ?thesis unfolding R by (rule replace_loop_count [OF assms(1)])
qed

lemma Replace_eq_replace_every:
  assumes "old \<noteq> []" "old \<noteq> new"
  shows "Replace s old new (- 1) = replace_every old new s"
  using assms
proof (induction old new s rule: replace_every.induct)
  case (1 old new)
  then show ?case by (simp add: Replace_all_unfold)
next
  case (2 old new c cs)
  note U = Replace_all_unfold [OF "2.prems"]
  show ?case
  proof (cases "prefix old (c # cs)")
    case True
    with "2.IH"(1) "2.prems" show ?thesis
      by (subst U) simp
  next
    case False
    with "2.IH"(2) "2.prems" have IH: "Replace cs old new (- 1) = replace_every old new cs"
      by simp
    show ?thesis
    proof (cases "index_from cs old")
      case None
      with False IH show ?thesis
        by (subst U) (simp add: U [of cs])
    next
      case (Some j)
      with False IH show ?thesis
        by (subst U) (simp add: U [of cs])
    qed
  qed
qed

lemma replace_every_at_match:
  "old \<noteq> [] \<Longrightarrow> replace_every old new (old @ r) = new @ replace_every old new r"
  by (cases old) simp_all

lemma replace_every_length_ge:
  "length old \<le> length new \<Longrightarrow> length s \<le> length (replace_every old new s)"
proof (induction old new s rule: replace_every.induct)
  case (1 old new)
  then show ?case by simp
next
  case (2 old new c cs)
  show ?case
  proof (cases "old \<noteq> [] \<and> prefix old (c # cs)")
    case True
    then obtain r where r: "c # cs = old @ r" by (auto simp: prefix_def)
    from True "2.IH"(1) "2.prems" have "length (drop (length old) (c # cs))
        \<le> length (replace_every old new (drop (length old) (c # cs)))" by simp
    with r have "length r \<le> length (replace_every old new r)" by simp
    with True "2.prems" show ?thesis unfolding r by (simp add: replace_every_at_match)
  next
    case False
    with "2.IH"(2) "2.prems" show ?thesis by auto
  qed
qed

lemma replace_every_length_le:
  "length new \<le> length old \<Longrightarrow> length (replace_every old new s) \<le> length s"
proof (induction old new s rule: replace_every.induct)
  case (1 old new)
  then show ?case by simp
next
  case (2 old new c cs)
  show ?case
  proof (cases "old \<noteq> [] \<and> prefix old (c # cs)")
    case True
    then obtain r where r: "c # cs = old @ r" by (auto simp: prefix_def)
    from True "2.IH"(1) "2.prems" have "length (replace_every old new (drop (length old) (c # cs)))
        \<le> length (drop (length old) (c # cs))" by simp
    with r have "length (replace_every old new r) \<le> length r" by simp
    with True "2.prems" show ?thesis unfolding r by (simp add: replace_every_at_match)
  next
    case False
    with "2.IH"(2) "2.prems" show ?thesis by auto
  qed
qed

lemma replace_every_unchanged:
  assumes "old \<noteq> []" "old \<noteq> new"
  shows "replace_every old new s = s \<longleftrightarrow> \<not> sublist old s"
  using assms
proof (induction old new s rule: replace_every.induct)
  case (1 old new)
  then show ?case by simp
next
  case (2 old new c cs)
  show ?case
  proof (cases "prefix old (c # cs)")
    case True
    then obtain r where r: "c # cs = old @ r" by (auto simp: prefix_def)
    have "new @ replace_every old new r \<noteq> old @ r"
    proof
      assume eq: "new @ replace_every old new r = old @ r"
      show False
      proof (cases "length new = length old")
        case True
        with eq "2.prems" show False by simp
      next
        case False
        from eq have len: "length new + length (replace_every old new r) = length old + length r"
          by (metis length_append)
        show False
        proof (cases "length new < length old")
          case True
          with replace_every_length_le [of new old r] len show False by simp
        next
          case F2: False
          with False have "length old < length new" by simp
          with replace_every_length_ge [of old new r] len show False by simp
        qed
      qed
    qed
    moreover from True have "sublist old (c # cs)" by (rule prefix_imp_sublist)
    ultimately show ?thesis using "2.prems" unfolding r by (simp add: replace_every_at_match)
  next
    case False
    with "2.IH"(2) "2.prems" show ?thesis by (simp add: sublist_Cons_right)
  qed
qed





subsection \<open>Writing a file that exists\<close>






lemma EditFile_on_existing:
  assumes dec: "unmarshal_EditFileInput input = Inr \<lparr>Path = p, OldStr = old, NewStr = new\<rparr>"
    and rd: "os_ReadFile fs p = Inr content"
    and ne: "old \<noteq> new"
  shows "EditFile input fs =
     (let newContent = Replace content old new (- 1) in
      if content = newContent \<and> old \<noteq> [] then (Inl (Errorf ''old_str not found in file''), fs)
      else (case os_WriteFile fs p newContent of
              (Some err, fs') \<Rightarrow> (Inl err, fs')
            | (None, fs') \<Rightarrow> (Inr ''OK'', fs')))"
proof -
  from rd have "p \<noteq> []" by (auto simp: os_ReadFile_def resolve_def)
  with dec rd ne show ?thesis by (simp add: EditFile_def Let_def)
qed


subsection \<open>Replacing in a file that exists\<close>





subsection \<open>The empty \<open>old_str\<close> on a file that exists\<close>




subsection \<open>Calling \<open>edit_file\<close> twice\<close>

text \<open>
  Claim C5, as stated, does not hold: with \<open>old_str = X\<close> and \<open>new_str = XX\<close> the first call
  turns \<open>aXbXc\<close> into \<open>aXXbXXc\<close>, where \<open>old_str\<close> still occurs, and the second call
  succeeds and changes the file again.
\<close>

theorem EditFile_twice_counterexample:
  "os_ReadFile example_fs ''a.txt'' = Inr ''aXbXc'' \<and>
   os_ReadFile (snd (EditFile (edit_input ''a.txt'' ''X'' ''XX'') example_fs)) ''a.txt''
     = Inr ''aXXbXXc'' \<and>
   fst (EditFile (edit_input ''a.txt'' ''X'' ''XX'')
          (snd (EditFile (edit_input ''a.txt'' ''X'' ''XX'') example_fs)))
     = Inr ''OK'' \<and>
   os_ReadFile (snd (EditFile (edit_input ''a.txt'' ''X'' ''XX'')
          (snd (EditFile (edit_input ''a.txt'' ''X'' ''XX'') example_fs)))) ''a.txt''
     = Inr ''aXXXXbXXXXc''"
  by code_simp

lemma EditFile_old_str_absent:
  assumes dec: "unmarshal_EditFileInput input = Inr \<lparr>Path = p, OldStr = old, NewStr = new\<rparr>"
    and old: "old \<noteq> []"
    and ne: "old \<noteq> new"
    and gone: "\<forall>c. os_ReadFile fs p = Inr c \<longrightarrow> \<not> sublist old c"
  shows "snd (EditFile input fs) = fs"
    and "os_ReadFile fs p = Inr c \<Longrightarrow> fst (EditFile input fs) = Inl (Errorf ''old_str not found in file'')"
proof -
  have "snd (EditFile input fs) = fs \<and>
     (os_ReadFile fs p = Inr c \<longrightarrow> fst (EditFile input fs) = Inl (Errorf ''old_str not found in file''))"
  proof (cases "os_ReadFile fs p")
    case (Inl e)
    with dec old show ?thesis by (simp add: EditFile_def)
  next
    case (Inr c')
    with gone have "\<not> sublist old c'" by simp
    then have "Replace c' old new (- 1) = c'"
      by (simp add: Replace_eq_replace_every [OF old ne] replace_every_unchanged [OF old ne])
    with old have "EditFile input fs = (Inl (Errorf ''old_str not found in file''), fs)"
      by (subst EditFile_on_existing [OF dec Inr ne]) simp
    then show ?thesis by simp
  qed
  then show "snd (EditFile input fs) = fs"
    and "os_ReadFile fs p = Inr c \<Longrightarrow> fst (EditFile input fs) = Inl (Errorf ''old_str not found in file'')"
    by simp_all
qed


text \<open>
  Claim C5, amended. For every path and every \<open>old_str\<close> that is not empty and differs from
  \<open>new_str\<close>: if \<open>old_str\<close> does not occur in the file after the first call (or the file
  cannot be read then), the second call with the same input leaves the file system as the
  first call left it, and when the file can be read the second call fails with
  \<open>old_str not found in file\<close>.
\<close>

theorem EditFile_twice:
  assumes dec: "unmarshal_EditFileInput input = Inr \<lparr>Path = p, OldStr = old, NewStr = new\<rparr>"
    and old: "old \<noteq> []"
    and ne: "old \<noteq> new"
    and gone: "\<forall>c. os_ReadFile (snd (EditFile input fs)) p = Inr c \<longrightarrow> \<not> sublist old c"
  shows "snd (EditFile input (snd (EditFile input fs))) = snd (EditFile input fs) \<and>
         (\<forall>c. os_ReadFile (snd (EditFile input fs)) p = Inr c \<longrightarrow>
              fst (EditFile input (snd (EditFile input fs)))
                = Inl (Errorf ''old_str not found in file''))"
  using EditFile_old_str_absent [OF dec old ne gone] by blast

theorem EditFile_twice_witness:
  "os_ReadFile (snd (EditFile (edit_input ''a.txt'' ''X'' ''YY'') example_fs)) ''a.txt''
     = Inr ''aYYbYYc'' \<and>
   \<not> sublist ''X'' ''aYYbYYc'' \<and>
   snd (EditFile (edit_input ''a.txt'' ''X'' ''YY'')
          (snd (EditFile (edit_input ''a.txt'' ''X'' ''YY'') example_fs)))
     = snd (EditFile (edit_input ''a.txt'' ''X'' ''YY'') example_fs) \<and>
   fst (EditFile (edit_input ''a.txt'' ''X'' ''YY'')
          (snd (EditFile (edit_input ''a.txt'' ''X'' ''YY'') example_fs)))
     = Inl (Errorf ''old_str not found in file'')"
proof -
  have rd: "os_ReadFile (snd (EditFile (edit_input ''a.txt'' ''X'' ''YY'') example_fs)) ''a.txt''
     = Inr ''aYYbYYc''"
    by code_simp
  have s: "\<not> sublist ''X'' ''aYYbYYc''"
    by (simp add: sublist_Cons_right)
  from rd s have gone: "\<forall>c. os_ReadFile (snd (EditFile (edit_input ''a.txt'' ''X'' ''YY'') example_fs)) ''a.txt'' = Inr c
      \<longrightarrow> \<not> sublist ''X'' c" by simp
  from EditFile_twice [OF unmarshal_edit_input _ _ gone] rd s show ?thesis by simp
qed


section \<open>The conversation loop\<close>

subsection \<open>After a reply of the model\<close>

lemma executeTool_keeps_input:
  "executeTool a i n inp w = Returns (r, w') \<Longrightarrow> stdin w' = stdin w \<and> requests w' = requests w"
  by (auto simp: executeTool_def print_def Let_def split: option.splits outcome.splits sum.splits)

lemma executeTool_world_keeps_input:
  "stdin (executeTool_world a n inp w) = stdin w \<and>
   requests (executeTool_world a n inp w) = requests w"
  by (auto simp: executeTool_world_def print_def Let_def
      split: option.splits outcome.splits prod.splits)

lemma process_blocks_world_keeps_input:
  "stdin (process_blocks_world a bs w) = stdin w \<and>
   requests (process_blocks_world a bs w) = requests w"
proof (induction a bs w rule: process_blocks_world.induct)
  case (1 a w)
  then show ?case by simp
next
  case (2 a t rest w)
  then show ?case by (simp add: print_def)
next
  case (3 a i n inp rest w)
  show ?case
  proof (cases "executeTool a i n inp w")
    case (Panic e)
    then show ?thesis by (simp add: executeTool_world_keeps_input)
  next
    case (Returns x)
    then obtain r w' where x: "executeTool a i n inp w = Returns (r, w')" by (cases x) auto
    with 3 [OF x refl] executeTool_keeps_input [OF x] show ?thesis by simp
  qed
next
  case (4 a ty rest w)
  then show ?case by simp
qed

lemma process_blocks_world_Returns:
  "process_blocks a bs acc w = Returns (rs, w') \<Longrightarrow> process_blocks_world a bs w = w'"
proof (induction a bs acc w rule: process_blocks.induct)
  case (1 a toolResults w)
  then show ?case by simp
next
  case (2 a t rest toolResults w)
  then show ?case by simp
next
  case (3 a i n inp rest toolResults w)
  then show ?case by (auto split: outcome.splits)
next
  case (4 a ty rest toolResults w)
  then show ?case by simp
qed

lemma Run_reply_input:
  "stdin (iteration_world (Run_reply a conv w)) = stdin w \<and>
   requests (iteration_world (Run_reply a conv w)) = requests w @ [request_for a conv]"
proof (cases "client a (requests w) (request_for a conv)")
  case (Inl err)
  then show ?thesis by (simp add: Run_reply_def runInference_def request_for_def)
next
  case (Inr m)
  let ?w1 = "w\<lparr>requests := requests w @ [request_for a conv]\<rparr>"
  show ?thesis
  proof (cases "processClaudeResponse a m ?w1")
    case (Panic e)
    with Inr process_blocks_world_keeps_input [of a "Content m" ?w1] show ?thesis
      by (simp add: Run_reply_def runInference_def request_for_def)
  next
    case (Returns x)
    then obtain rs w2 where x: "processClaudeResponse a m ?w1 = Returns (rs, w2)" by (cases x) auto
    from process_blocks_world_Returns [OF x [unfolded processClaudeResponse_def]]
      process_blocks_world_keeps_input [of a "Content m" ?w1]
    show ?thesis using Inr x by (simp add: Run_reply_def runInference_def request_for_def Let_def)
  qed
qed

lemma Run_loop_Next: "Run_iteration a s = Next s' \<Longrightarrow> Run_loop a s = Run_loop a s'"
  by (subst Run_loop.simps) simp

lemma Run_loop_Done: "Run_iteration a s = Done e w \<Longrightarrow> Run_loop a s = Some (e, w)"
  by (subst Run_loop.simps) simp

text \<open>
  Claim C1. Let an iteration of the loop of \<open>Run\<close>, in the state \<open>s\<close>, come to the inference
  call with the conversation \<open>conv\<close> in the world \<open>w\<close>, let the call succeed with the reply \<open>m\<close>,
  and let processing \<open>m\<close> return the tool results \<open>toolResults\<close>.

  If there is at least one, the iteration ends in the state \<open>s'\<close> whose conversation is \<open>conv\<close>
  extended by the reply and by exactly one user turn that holds all the results, with
  \<open>readUserInput\<close> off, and the loop goes on from \<open>s'\<close>. The iteration of \<open>s'\<close> is the inference
  call on that conversation in the world the tools left: the loop from \<open>s\<close> is what this call
  leads to, the call sends the request for that conversation, and standard input is as it was.

  If there is none, the iteration ends in the state \<open>s'\<close> whose conversation is \<open>conv\<close> extended
  by the reply only, with \<open>readUserInput\<close> on, and the loop goes on from \<open>s'\<close>. The iteration of
  \<open>s'\<close> prints the prompt and reads a line: at the end of the input, or at a line too long for
  the scanner, \<open>Run\<close> returns \<open>nil\<close>, and else the line becomes a user turn and inference is
  called on it.
\<close>

theorem Run_after_reply:
  assumes it: "Run_iteration a s = Run_reply a conv w"
    and inf: "client a (requests w) (request_for a conv) = Inr m"
    and proc: "processClaudeResponse a m (w\<lparr>requests := requests w @ [request_for a conv]\<rparr>)
                 = Returns (toolResults, w')"
  shows "(toolResults \<noteq> [] \<longrightarrow>
           (let s' = \<lparr>conversation = conv @ [ToParam m, MessageParam User toolResults],
                      readUserInput = False, the_world = w'\<rparr>
            in Run_iteration a s = Next s' \<and>
               Run_loop a s = Run_loop a s' \<and>
               Run_iteration a s' = Run_reply a (conversation s') w' \<and>
               Run_loop a s =
                 (case Run_reply a (conversation s') w' of
                    Next t \<Rightarrow> Run_loop a t
                  | Done e x \<Rightarrow> Some (e, x)) \<and>
               stdin (iteration_world (Run_iteration a s')) = stdin w' \<and>
               requests (iteration_world (Run_iteration a s'))
                 = requests w' @ [request_for a (conversation s')])) \<and>
         (toolResults = [] \<longrightarrow>
           (let s' = \<lparr>conversation = conv @ [ToParam m], readUserInput = True, the_world = w'\<rparr>
            in Run_iteration a s = Next s' \<and>
               Run_loop a s = Run_loop a s' \<and>
               Run_iteration a s' =
                 (case stdin w' of
                    [] \<Rightarrow> Done ReturnNil (print Prompt w')
                  | l # ls \<Rightarrow>
                      if MaxScanTokenSize \<le> int (length l) then Done ReturnNil (print Prompt w')
                      else Run_reply a (conversation s' @ [MessageParam User [TextParam (dropCR l)]])
                             ((print Prompt w')\<lparr>stdin := ls\<rparr>)) \<and>
               Run_loop a s =
                 (case stdin w' of
                    [] \<Rightarrow> Some (ReturnNil, print Prompt w')
                  | l # ls \<Rightarrow>
                      if MaxScanTokenSize \<le> int (length l) then Some (ReturnNil, print Prompt w')
                      else (case Run_reply a (conversation s' @ [MessageParam User [TextParam (dropCR l)]])
                                   ((print Prompt w')\<lparr>stdin := ls\<rparr>) of
                              Next t \<Rightarrow> Run_loop a t
                            | Done e x \<Rightarrow> Some (e, x)))))"
proof -
  let ?st = "\<lparr>conversation = conv @ [ToParam m, MessageParam User toolResults],
              readUserInput = False, the_world = w'\<rparr>"
  let ?sn = "\<lparr>conversation = conv @ [ToParam m], readUserInput = True, the_world = w'\<rparr>"
  from inf proc have R: "Run_reply a conv w = (if toolResults \<noteq> [] then Next ?st else Next ?sn)"
    by (simp add: Run_reply_def runInference_def request_for_def NewUserMessage_def)
  have tools: "toolResults \<noteq> [] \<longrightarrow>
           (let s' = ?st
            in Run_iteration a s = Next s' \<and>
               Run_loop a s = Run_loop a s' \<and>
               Run_iteration a s' = Run_reply a (conversation s') w' \<and>
               Run_loop a s =
                 (case Run_reply a (conversation s') w' of
                    Next t \<Rightarrow> Run_loop a t
                  | Done e x \<Rightarrow> Some (e, x)) \<and>
               stdin (iteration_world (Run_iteration a s')) = stdin w' \<and>
               requests (iteration_world (Run_iteration a s'))
                 = requests w' @ [request_for a (conversation s')])"
  proof
    assume ne: "toolResults \<noteq> []"
    with R it have n: "Run_iteration a s = Next ?st" by simp
    have i: "Run_iteration a ?st = Run_reply a (conversation ?st) w'"
      by (simp add: Run_iteration_def)
    have l: "Run_loop a s = Run_loop a ?st" by (rule Run_loop_Next [OF n])
    have l2: "Run_loop a ?st = (case Run_reply a (conversation ?st) w' of
                    Next t \<Rightarrow> Run_loop a t | Done e x \<Rightarrow> Some (e, x))"
      by (subst Run_loop.simps) (simp only: i)
    from n i l l2 Run_reply_input [of a "conversation ?st" w']
    show "let s' = ?st
            in Run_iteration a s = Next s' \<and>
               Run_loop a s = Run_loop a s' \<and>
               Run_iteration a s' = Run_reply a (conversation s') w' \<and>
               Run_loop a s =
                 (case Run_reply a (conversation s') w' of
                    Next t \<Rightarrow> Run_loop a t
                  | Done e x \<Rightarrow> Some (e, x)) \<and>
               stdin (iteration_world (Run_iteration a s')) = stdin w' \<and>
               requests (iteration_world (Run_iteration a s'))
                 = requests w' @ [request_for a (conversation s')]"
      unfolding Let_def by simp
  qed
  have none: "toolResults = [] \<longrightarrow>
           (let s' = ?sn
            in Run_iteration a s = Next s' \<and>
               Run_loop a s = Run_loop a s' \<and>
               Run_iteration a s' =
                 (case stdin w' of
                    [] \<Rightarrow> Done ReturnNil (print Prompt w')
                  | l # ls \<Rightarrow>
                      if MaxScanTokenSize \<le> int (length l) then Done ReturnNil (print Prompt w')
                      else Run_reply a (conversation s' @ [MessageParam User [TextParam (dropCR l)]])
                             ((print Prompt w')\<lparr>stdin := ls\<rparr>)) \<and>
               Run_loop a s =
                 (case stdin w' of
                    [] \<Rightarrow> Some (ReturnNil, print Prompt w')
                  | l # ls \<Rightarrow>
                      if MaxScanTokenSize \<le> int (length l) then Some (ReturnNil, print Prompt w')
                      else (case Run_reply a (conversation s' @ [MessageParam User [TextParam (dropCR l)]])
                                   ((print Prompt w')\<lparr>stdin := ls\<rparr>) of
                              Next t \<Rightarrow> Run_loop a t
                            | Done e x \<Rightarrow> Some (e, x))))"
  proof
    assume e: "toolResults = []"
    with R it have n: "Run_iteration a s = Next ?sn" by simp
    have l: "Run_loop a s = Run_loop a ?sn" by (rule Run_loop_Next [OF n])
    have i: "Run_iteration a ?sn =
                 (case stdin w' of
                    [] \<Rightarrow> Done ReturnNil (print Prompt w')
                  | l # ls \<Rightarrow>
                      if MaxScanTokenSize \<le> int (length l) then Done ReturnNil (print Prompt w')
                      else Run_reply a (conversation ?sn @ [MessageParam User [TextParam (dropCR l)]])
                             ((print Prompt w')\<lparr>stdin := ls\<rparr>))"
      by (simp add: Run_iteration_def getUserMessage_def print_def NewUserMessage_def
          NewTextBlock_def split: list.splits)
    have l2: "Run_loop a ?sn =
                 (case stdin w' of
                    [] \<Rightarrow> Some (ReturnNil, print Prompt w')
                  | l # ls \<Rightarrow>
                      if MaxScanTokenSize \<le> int (length l) then Some (ReturnNil, print Prompt w')
                      else (case Run_reply a (conversation ?sn @ [MessageParam User [TextParam (dropCR l)]])
                                   ((print Prompt w')\<lparr>stdin := ls\<rparr>) of
                              Next t \<Rightarrow> Run_loop a t
                            | Done e x \<Rightarrow> Some (e, x)))"
      by (subst Run_loop.simps) (simp add: i split: list.splits)
    from n l i l2
    show "let s' = ?sn
            in Run_iteration a s = Next s' \<and>
               Run_loop a s = Run_loop a s' \<and>
               Run_iteration a s' =
                 (case stdin w' of
                    [] \<Rightarrow> Done ReturnNil (print Prompt w')
                  | l # ls \<Rightarrow>
                      if MaxScanTokenSize \<le> int (length l) then Done ReturnNil (print Prompt w')
                      else Run_reply a (conversation s' @ [MessageParam User [TextParam (dropCR l)]])
                             ((print Prompt w')\<lparr>stdin := ls\<rparr>)) \<and>
               Run_loop a s =
                 (case stdin w' of
                    [] \<Rightarrow> Some (ReturnNil, print Prompt w')
                  | l # ls \<Rightarrow>
                      if MaxScanTokenSize \<le> int (length l) then Some (ReturnNil, print Prompt w')
                      else (case Run_reply a (conversation s' @ [MessageParam User [TextParam (dropCR l)]])
                                   ((print Prompt w')\<lparr>stdin := ls\<rparr>) of
                              Next t \<Rightarrow> Run_loop a t
                            | Done e x \<Rightarrow> Some (e, x)))"
      unfolding Let_def by simp
  qed
  from tools none show ?thesis by (rule conjI)
qed

theorem Run_after_reply_witness:
  "Run_iteration example_agent listing_start
     = Run_reply example_agent example_conversation world_at_call \<and>
   client example_agent (requests world_at_call) (request_for example_agent example_conversation)
     = Inr example_reply \<and>
   processClaudeResponse example_agent example_reply
     (world_at_call\<lparr>requests := requests world_at_call
                                   @ [request_for example_agent example_conversation]\<rparr>)
     = Returns ([example_result], world_after_listing) \<and>
   Run_iteration example_agent listing_start = Next state_after_listing \<and>
   Run_loop example_agent listing_start = Run_loop example_agent state_after_listing \<and>
   Run_iteration example_agent state_after_listing
     = Run_reply example_agent conversation_after_tool world_after_listing \<and>
   stdin (iteration_world (Run_iteration example_agent state_after_listing)) = [] \<and>
   requests (iteration_world (Run_iteration example_agent state_after_listing))
     = [request_for example_agent example_conversation,
        request_for example_agent conversation_after_tool] \<and>
   client example_agent (requests world_after_listing)
       (request_for example_agent conversation_after_tool)
     = Inr listing_answer \<and>
   processClaudeResponse example_agent listing_answer
     (world_after_listing\<lparr>requests := requests world_after_listing
                                   @ [request_for example_agent conversation_after_tool]\<rparr>)
     = Returns ([], world_after_answer) \<and>
   Run_iteration example_agent state_after_listing = Next state_after_answer \<and>
   Run_loop example_agent state_after_listing = Run_loop example_agent state_after_answer \<and>
   Run_iteration example_agent state_after_answer
     = Done ReturnNil (print Prompt world_after_answer) \<and>
   Run example_agent listing_world = Some (ReturnNil, print Prompt world_after_answer)"
proof -
  have it1: "Run_iteration example_agent listing_start
     = Run_reply example_agent example_conversation world_at_call"
    by (simp add: Run_iteration_def listing_start_def getUserMessage_def print_def
        listing_world_def world_at_call_def MaxScanTokenSize_def dropCR_def
        example_conversation_def NewUserMessage_def NewTextBlock_def)
  have h1: "client example_agent (requests world_at_call)
      (request_for example_agent example_conversation) = Inr example_reply"
    by (simp add: example_agent_def world_at_call_def listing_world_def example_reply_def)
  have h2: "processClaudeResponse example_agent example_reply
     (world_at_call\<lparr>requests := requests world_at_call
                                   @ [request_for example_agent example_conversation]\<rparr>)
     = Returns ([example_result], world_after_listing)"
    by code_simp
  have it2: "Run_iteration example_agent state_after_listing
     = Run_reply example_agent conversation_after_tool world_after_listing"
    by (simp add: Run_iteration_def state_after_listing_def)
  have h3: "client example_agent (requests world_after_listing)
       (request_for example_agent conversation_after_tool)
     = Inr listing_answer"
    by (simp add: example_agent_def world_after_listing_def listing_answer_def)
  have h4: "processClaudeResponse example_agent listing_answer
     (world_after_listing\<lparr>requests := requests world_after_listing
                                   @ [request_for example_agent conversation_after_tool]\<rparr>)
     = Returns ([], world_after_answer)"
    by (simp add: processClaudeResponse_def print_def listing_answer_def world_after_answer_def
        world_after_listing_def)
  have r: "requests world_after_listing = [request_for example_agent example_conversation]"
    "stdin world_after_listing = []" "stdin world_after_answer = []"
    by (simp_all add: world_after_listing_def world_after_answer_def listing_world_def)
  have run: "Run example_agent listing_world = Run_loop example_agent listing_start"
    by (simp add: Run_def listing_start_def)
  have A: "Run_iteration example_agent listing_start = Next state_after_listing \<and>
     Run_loop example_agent listing_start = Run_loop example_agent state_after_listing \<and>
     stdin (iteration_world (Run_iteration example_agent state_after_listing)) = [] \<and>
     requests (iteration_world (Run_iteration example_agent state_after_listing))
       = [request_for example_agent example_conversation,
          request_for example_agent conversation_after_tool]"
    using Run_after_reply [OF it1 h1 h2] r
    unfolding Let_def conversation_after_tool_def state_after_listing_def
    by auto
  have B: "Run_iteration example_agent state_after_listing = Next state_after_answer \<and>
     Run_loop example_agent state_after_listing = Run_loop example_agent state_after_answer \<and>
     Run_iteration example_agent state_after_answer
       = Done ReturnNil (print Prompt world_after_answer) \<and>
     Run_loop example_agent state_after_listing
       = Some (ReturnNil, print Prompt world_after_answer)"
    using Run_after_reply [OF it2 h3 h4] r
    unfolding Let_def state_after_answer_def
    by auto
  have "Run example_agent listing_world = Run_loop example_agent listing_start"
    by (rule run)
  also have "\<dots> = Run_loop example_agent state_after_listing"
    using A by blast
  also have "\<dots> = Some (ReturnNil, print Prompt world_after_answer)"
    using B by blast
  finally have F: "Run example_agent listing_world
      = Some (ReturnNil, print Prompt world_after_answer)" .
  from A B F it1 h1 h2 it2 h3 h4 show ?thesis by blast
qed

subsection \<open>A failed inference call\<close>

lemma Run_reply_inference_failure:
  "client a (requests w) (request_for a conv) = Inl err \<Longrightarrow>
   Run_reply a conv w = Done (ReturnErr err) (w\<lparr>requests := requests w @ [request_for a conv]\<rparr>)"
  by (simp add: Run_reply_def runInference_def request_for_def)

text \<open>
  Claim C2 at an overload error. The inference call fails with an error whose text contains
  \<open>overloaded_error\<close>. \<open>Run\<close> of \<open>main.go\<close> returns the error after the first line of
  input, and \<open>main\<close> exits with status 1; the \<open>Run\<close> without tools prints its notice
  and prompts again, and returns \<open>nil\<close> at the end of input.
\<close>

theorem Run_overloaded_error:
  "Contains (error_text (APIError ''529 overloaded_error: Overloaded'')) ''overloaded_error'' \<and>
   Run overloaded_agent example_world
     = Some (ReturnErr (APIError ''529 overloaded_error: Overloaded''),
             example_world\<lparr>stdin := [], stdout := [Greeting, Prompt],
                            requests := [request_for overloaded_agent
                                           [MessageParam User [TextParam ''hello'']]]\<rparr>) \<and>
   map_option (\<lambda>r. fst (main_exit r)) (Run overloaded_agent example_world) = Some 1 \<and>
   Run_chat overloaded_agent example_world
     = Some (ReturnNil,
             example_world\<lparr>stdin := [], stdout := [Greeting, Prompt, OverloadedNotice, Prompt],
                            requests := [\<lparr>Messages = [MessageParam User [TextParam ''hello'']],
                                          Tools = []\<rparr>]\<rparr>)"
  by code_simp

section \<open>Tool inputs that do not decode\<close>

lemma find_main_tools:
  "find (\<lambda>tool. Name tool = ''read_file'') main_tools = Some ReadFileDefinition"
  "find (\<lambda>tool. Name tool = ''list_files'') main_tools = Some ListFilesDefinition"
  "find (\<lambda>tool. Name tool = ''edit_file'') main_tools = Some EditFileDefinition"
  by (simp_all add: main_tools_def ReadFileDefinition_def ListFilesDefinition_def
      EditFileDefinition_def)

text \<open>
  Claim C4 at \<open>list_files\<close>. When the input of \<open>list_files\<close> does not decode, \<open>ListFiles\<close>
  panics with the decoding error, and so does \<open>executeTool\<close>: no tool result is returned.
\<close>

theorem executeTool_list_files_undecodable:
  assumes "tools a = main_tools"
    and "unmarshal_path ''ListFilesInput'' input = Inl err"
  shows "ListFiles input fs = Panic err \<and>
         executeTool a tid ''list_files'' input w = Panic err"
  using assms
  by (simp add: executeTool_def find_main_tools ListFiles_def ListFilesDefinition_def)

theorem executeTool_list_files_undecodable_witness:
  "tools panic_agent = main_tools \<and>
   unmarshal_path ''ListFilesInput'' bad_path_input
     = Inl (UnmarshalTypeError ''number'' ''ListFilesInput'' ''path'') \<and>
   executeTool panic_agent ''toolu_1'' ''list_files'' bad_path_input example_world
     = Panic (UnmarshalTypeError ''number'' ''ListFilesInput'' ''path'') \<and>
   map_option (\<lambda>r. fst (main_exit r)) (Run panic_agent example_world) = Some 2"
proof -
  have t: "tools panic_agent = main_tools" by (simp add: panic_agent_def)
  have u: "unmarshal_path ''ListFilesInput'' bad_path_input
     = Inl (UnmarshalTypeError ''number'' ''ListFilesInput'' ''path'')"
    by (simp add: unmarshal_path_def bad_path_input_def field_for_def)
  have r: "map_option (\<lambda>r. fst (main_exit r)) (Run panic_agent example_world) = Some 2"
    by code_simp
  from executeTool_list_files_undecodable [OF t u, of example_fs "''toolu_1''" example_world] t u r
  show ?thesis by simp
qed

text \<open>
  The other two tools return the decoding error, and \<open>executeTool\<close> turns it into a tool
  result with the error flag set.
\<close>

lemma executeTool_read_file_undecodable:
  assumes "tools a = main_tools"
    and "unmarshal_path ''ReadFileInput'' input = Inl err"
  shows "executeTool a tid ''read_file'' input w
     = Returns (ToolResultParam tid (''invalid input format: '' @ error_text err) True,
                print (ToolLine ''read_file'' input) w)"
  using assms
  by (simp add: executeTool_def find_main_tools ReadFile_def ReadFileDefinition_def
      NewToolResultBlock_def print_def)

lemma executeTool_edit_file_undecodable:
  assumes "tools a = main_tools"
    and "unmarshal_EditFileInput input = Inl err"
  shows "executeTool a tid ''edit_file'' input w
     = Returns (ToolResultParam tid (error_text err) True, print (ToolLine ''edit_file'' input) w)"
  using assms
  by (simp add: executeTool_def find_main_tools EditFile_def EditFileDefinition_def
      NewToolResultBlock_def print_def)

section \<open>list_files on an empty directory\<close>

text \<open>
  Claim C3 at an empty directory. When the path of \<open>list_files\<close> names a directory without
  entries, nothing is appended to the \<open>nil\<close> slice and the result is the text \<open>null\<close>, not
  \<open>[]\<close>.
\<close>

theorem ListFiles_empty_directory:
  assumes "unmarshal_path ''ListFilesInput'' input = Inr p"
    and "os_Lstat fs (if p \<noteq> [] then p else ''.'') = Inr (Dir [])"
  shows "ListFiles input fs = Returns (Inr ''null'')"
  using assms
  by (simp add: ListFiles_def Let_def filepath_Walk_def readDirNames_def ListFiles_visit_def
      filepath_Rel_def json_Marshal_def)

theorem ListFiles_empty_directory_witness:
  "unmarshal_path ''ListFilesInput'' list_empty_input = Inr ''empty'' \<and>
   os_Lstat example_fs ''empty'' = Inr (Dir []) \<and>
   ListFiles list_empty_input example_fs = Returns (Inr ''null'') \<and>
   ListFiles (Valid (JObject [])) example_fs
     = Returns (Inr (''['' @ [CHR 0x22] @ ''a.txt'' @ [CHR 0x22] @ '','' @
                     [CHR 0x22] @ ''empty/'' @ [CHR 0x22] @ '','' @
                     [CHR 0x22] @ ''src/'' @ [CHR 0x22] @ '','' @
                     [CHR 0x22] @ ''src/x.go'' @ [CHR 0x22] @ '']''))"
proof -
  have u: "unmarshal_path ''ListFilesInput'' list_empty_input = Inr ''empty''"
    by (simp add: unmarshal_path_def list_empty_input_def field_for_def field_def)
  have l: "os_Lstat example_fs (if ''empty'' \<noteq> [] then ''empty'' else ''.'') = Inr (Dir [])"
    by code_simp
  have a: "ListFiles (Valid (JObject [])) example_fs
     = Returns (Inr (''['' @ [CHR 0x22] @ ''a.txt'' @ [CHR 0x22] @ '','' @
                     [CHR 0x22] @ ''empty/'' @ [CHR 0x22] @ '','' @
                     [CHR 0x22] @ ''src/'' @ [CHR 0x22] @ '','' @
                     [CHR 0x22] @ ''src/x.go'' @ [CHR 0x22] @ '']''))"
    by code_simp
  from ListFiles_empty_directory [OF u l] u l a show ?thesis by simp
qed

end
